theory Spec2Isabelle
  imports Main "HOL-Library.Word"
begin

unbundle bit_operations_syntax

section \<open>smallsh: a shallow embedding of smallsh.c\<close>

text \<open>
  The C program keeps its state in global variables, talks to the kernel through system
  calls and prints with \<open>printf\<close>. In this development
  \<^item> the globals are one record, passed to and returned by every function that touches them;
  \<^item> what a system call answers (the pid and status found by \<open>waitpid\<close>, whether a
    path can be opened, whether a program can be executed, the value \<open>fork\<close> returns) is a
    parameter of the function that makes the call;
  \<^item> what is printed is returned as a string;
  \<^item> a C \<open>int\<close> that is inspected bit by bit (a wait status) is a \<open>32 word\<close>; process
    ids, counters and file descriptors are \<open>int\<close>;
  \<^item> a \<open>char *\<close> is a \<open>string option\<close>, \<open>None\<close> being the null pointer.
\<close>

subsection \<open>Output of printf\<close>

text \<open>The conversion \<open>%d\<close>: decimal digits, with a minus sign for a negative value.\<close>

fun dec_nat :: "nat \<Rightarrow> string" where
  "dec_nat n =
     (if n < 10 then [''0123456789'' ! n]
      else dec_nat (n div 10) @ [''0123456789'' ! (n mod 10)])"

declare dec_nat.simps [simp del]

definition dec :: "int \<Rightarrow> string" where
  "dec i = (if i < 0 then CHR ''-'' # dec_nat (nat (- i)) else dec_nat (nat i))"

text \<open>The conversion \<open>%s\<close>; glibc prints a null pointer as \<open>(null)\<close>.\<close>

definition str :: "string option \<Rightarrow> string" where
  "str p = (case p of None \<Rightarrow> ''(null)'' | Some s \<Rightarrow> s)"

subsection \<open>Wait statuses\<close>

text \<open>
  The macros of \<open><sys/wait.h>\<close> as the GNU C library defines them for Linux (the
  program is built with \<open>gcc --std=gnu99\<close>):
  \<^verbatim>\<open>
  #define __WEXITSTATUS(status) (((status) & 0xff00) >> 8)
  #define __WTERMSIG(status)    ((status) & 0x7f)
  #define __WIFEXITED(status)   (__WTERMSIG(status) == 0)
  #define __WIFSIGNALED(status) (((signed char) (((status) & 0x7f) + 1) >> 1) > 0)
  \<close>
\<close>

type_synonym c_int = "32 word"

definition WEXITSTATUS :: "c_int \<Rightarrow> c_int" where
  "WEXITSTATUS status = drop_bit 8 (status AND 0xff00)"

definition WTERMSIG :: "c_int \<Rightarrow> c_int" where
  "WTERMSIG status = status AND 0x7f"

definition WIFEXITED :: "c_int \<Rightarrow> bool" where
  "WIFEXITED status = (WTERMSIG status = 0)"

definition WIFSIGNALED :: "c_int \<Rightarrow> bool" where
  "WIFSIGNALED status =
     (0 <s signed_drop_bit 1 (ucast ((status AND 0x7f) + 1) :: 8 word))"

text \<open>The status the kernel stores for a child that called \<open>exit(ret)\<close>, or for one
  killed by signal \<open>sig\<close>: \<^verbatim>\<open>#define __W_EXITCODE(ret, sig) ((ret) << 8 | (sig))\<close>.\<close>

definition W_EXITCODE :: "c_int \<Rightarrow> c_int \<Rightarrow> c_int" where
  "W_EXITCODE ret sig = push_bit 8 ret OR sig"

subsection \<open>Global variables\<close>

text \<open>
  \<^verbatim>\<open>
  pid_t current_foreground_pid = -5;
  int exit_method = -5;
  int z_mode = 0;
  int num_background_process = 0;
  char *redirection_file = NULL;
  \<close>
\<close>

record globals =
  current_foreground_pid :: int
  exit_method :: c_int
  z_mode :: int
  num_background_process :: int
  redirection_file :: "string option"

definition initial_globals :: globals where
  "initial_globals =
     \<lparr> current_foreground_pid = - 5,
       exit_method = - 5,
       z_mode = 0,
       num_background_process = 0,
       redirection_file = None \<rparr>"

subsection \<open>The built-in command status\<close>

text \<open>\<open>status_command\<close> (lines 193 to 208) only prints; the result is the text printed.\<close>

definition status_command :: "globals \<Rightarrow> string" where
  "status_command g =
     (if WIFEXITED (exit_method g)
      then ''exit value '' @ dec (sint (WEXITSTATUS (exit_method g))) @ [CHR 0x0A]
      else ''terminated by signal '' @ dec (sint (WTERMSIG (exit_method g))) @ [CHR 0x0A])"

text \<open>\<open>check_termination\<close> (lines 59 to 68).\<close>

definition check_termination :: "globals \<Rightarrow> string" where
  "check_termination g =
     (if WIFSIGNALED (exit_method g)
      then ''terminated by signal '' @ dec (sint (WTERMSIG (exit_method g))) @ [CHR 0x0A]
      else [])"

subsection \<open>Reaping background children\<close>

text \<open>
  \<open>check_background_processes\<close> (lines 397 to 424). The call
  \<open>waitpid(-1, &exit_method, WNOHANG)\<close> returns the pid of a child that has changed state
  and stores its status through the pointer, or returns 0 (no child has changed state) or
  -1 (no child at all) and stores nothing. Its answer is the parameter \<open>w\<close>: the value
  returned and the status the kernel would store.
\<close>

definition check_background_processes :: "globals \<Rightarrow> int \<times> c_int \<Rightarrow> globals \<times> string" where
  "check_background_processes g w =
     (if num_background_process g > 0 then
        (let completed_process = fst w;
             g1 = (if completed_process > 0 then g\<lparr>exit_method := snd w\<rparr> else g)
         in if completed_process > 0 then
              (g1, ''background pid '' @ dec completed_process @ '' is done: '' @
                   (if WIFEXITED (exit_method g1)
                    then ''exit value '' @ dec (sint (WEXITSTATUS (exit_method g1))) @ [CHR 0x0A]
                    else ''terminated by signal '' @ dec (sint (WTERMSIG (exit_method g1))) @
                         [CHR 0x0A]))
            else (g1, []))
      else (g, []))"

subsection \<open>File descriptors\<close>

text \<open>
  The descriptor table of a process: entry \<open>n\<close> is the open file that descriptor \<open>n\<close>
  refers to, \<open>None\<close> when the descriptor is closed; descriptors past the end are closed.
  An open file is either one the process had when it was forked (\<open>Inherited n\<close>: what
  the shell had at descriptor \<open>n\<close>) or one it opened by path.
\<close>

datatype oflag = O_RDONLY | O_WRONLY | O_WRONLY_CREAT_TRUNC

datatype ofile = Inherited nat | Opened string oflag

type_synonym fd_table = "ofile option list"

definition fd_get :: "fd_table \<Rightarrow> int \<Rightarrow> ofile option" where
  "fd_get t fd = (if 0 \<le> fd \<and> nat fd < length t then t ! nat fd else None)"

definition fd_put :: "fd_table \<Rightarrow> nat \<Rightarrow> ofile option \<Rightarrow> fd_table" where
  "fd_put t n v =
     (if n < length t then t[n := v] else t @ replicate (n - length t) None @ [v])"

fun lowest_free :: "fd_table \<Rightarrow> nat" where
  "lowest_free [] = 0"
| "lowest_free (None # t) = 0"
| "lowest_free (Some f # t) = Suc (lowest_free t)"

text \<open>
  \<open>open\<close> returns the lowest descriptor not in use, or -1; whether it succeeds is the
  kernel's answer \<open>ok\<close>. \<open>dup2(oldfd, newfd)\<close> fails and changes nothing when \<open>oldfd\<close>
  is not an open descriptor; otherwise \<open>newfd\<close> refers to the same open file afterwards.
  \<open>close\<close> of a descriptor that is not open fails and changes nothing. The program
  ignores the values \<open>dup2\<close> and \<open>close\<close> return.
\<close>

definition sys_open :: "bool \<Rightarrow> fd_table \<Rightarrow> string \<Rightarrow> oflag \<Rightarrow> int \<times> fd_table" where
  "sys_open ok t path fl =
     (if ok then (int (lowest_free t), fd_put t (lowest_free t) (Some (Opened path fl)))
      else (- 1, t))"

definition sys_dup2 :: "fd_table \<Rightarrow> int \<Rightarrow> int \<Rightarrow> fd_table" where
  "sys_dup2 t oldfd newfd =
     (case fd_get t oldfd of
        None \<Rightarrow> t
      | Some f \<Rightarrow> if newfd < 0 then t else fd_put t (nat newfd) (Some f))"

definition sys_close :: "fd_table \<Rightarrow> int \<Rightarrow> fd_table" where
  "sys_close t fd = (if fd_get t fd = None then t else fd_put t (nat fd) None)"

subsection \<open>What the surroundings answer\<close>

text \<open>
  Everything \<open>run_fork\<close> and \<open>redirection\<close> learn from outside the program:
  \<^item> \<open>fork_returns\<close>: the value of \<open>fork()\<close> (-1, 0 in the child, the child's pid in the
    parent);
  \<^item> \<open>waitpid_returns\<close>: what \<open>waitpid(spawnPid, &exit_method, 0)\<close> returns and the
    status it stores when it returns a pid;
  \<^item> \<open>open_null_out\<close>, \<open>open_null_in\<close>: whether the two \<open>open("/dev/null", ...)\<close> succeed;
  \<^item> \<open>open_at i\<close>: whether the \<open>open\<close> made by the loop of \<open>redirection\<close> at index
    \<open>i\<close> succeeds (an index makes at most one \<open>open\<close>, as a token cannot be both
    \<open>>\<close> and \<open><\<close>);
  \<^item> \<open>exec_ok\<close>: whether \<open>execvp\<close> replaces the process image (it returns otherwise);
  \<^item> \<open>child_fds\<close>: the descriptor table the forked child starts with;
  \<^item> \<open>garbage\<close>: the value found in the local variable \<open>input_file\<close> of \<open>redirection\<close>,
    which line 299 declares without an initialiser
    (\<^verbatim>\<open>int input_file, output_file = -5;\<close> initialises \<open>output_file\<close> only).
\<close>

record surroundings =
  fork_returns :: int
  waitpid_returns :: "int \<times> c_int"
  open_null_out :: bool
  open_null_in :: bool
  open_at :: "nat \<Rightarrow> bool"
  exec_ok :: bool
  child_fds :: fd_table
  garbage :: int

subsection \<open>Redirection\<close>

text \<open>
  \<open>redirection(args, count, is_in_background)\<close> (lines 297 to 388). The pair
  \<open>(args, count)\<close> is the list of the first \<open>count\<close> entries of the array, all strings;
  entry \<open>count\<close> of the array is the null pointer. The local variables that the loop
  changes, together with the descriptor table:
\<close>

record redir_locals =
  input_file :: int
  output_file :: int
  args_to_remove :: "nat list"
  fds :: fd_table

text \<open>
  \<open>args_to_remove\<close> is the part of the array \<^verbatim>\<open>int args_to_remove[MAX_ARGUMENTS]\<close>
  (line 301) written so far, and its length is \<open>len_args_to_remove\<close>. The array has 512
  entries and the two writes of an operator (lines 327 to 330 and 347 to 350) are not
  guarded: once 512 entries are written, the next operator writes past the end of the
  array, and what the child does from there on is undefined.
\<close>

definition MAX_ARGUMENTS :: nat where
  "MAX_ARGUMENTS = 512"

datatype redir_failure = Open_failed string | Remove_overflow

text \<open>The two \<open>if\<close> statements of the loop body (lines 312 to 331 and 333 to 351).
  \<open>Inl (Open_failed path)\<close> is \<open>return 1\<close>, with the path stored in \<open>redirection_file\<close>;
  \<open>Inl Remove_overflow\<close> is the write past the end of \<open>args_to_remove\<close>.\<close>

definition redirect_output_at ::
  "surroundings \<Rightarrow> string list \<Rightarrow> nat \<Rightarrow> redir_locals \<Rightarrow> redir_failure + redir_locals" where
  "redirect_output_at w args i l =
     (if args ! i = ''>'' then
        (let (fd, t) = sys_open (open_at w i) (fds l) (args ! (i + 1)) O_WRONLY_CREAT_TRUNC
         in if fd = - 1 then Inl (Open_failed (args ! (i + 1)))
            else if MAX_ARGUMENTS < length (args_to_remove l) + 2 then Inl Remove_overflow
            else Inr (l\<lparr>output_file := fd,
                        fds := sys_close (sys_dup2 t fd 1) fd,
                        args_to_remove := args_to_remove l @ [i, i + 1]\<rparr>))
      else Inr l)"

definition redirect_input_at ::
  "surroundings \<Rightarrow> string list \<Rightarrow> nat \<Rightarrow> redir_locals \<Rightarrow> redir_failure + redir_locals" where
  "redirect_input_at w args i l =
     (if args ! i = ''<'' then
        (let (fd, t) = sys_open (open_at w i) (fds l) (args ! (i + 1)) O_RDONLY
         in if fd = - 1 then Inl (Open_failed (args ! (i + 1)))
            else if MAX_ARGUMENTS < length (args_to_remove l) + 2 then Inl Remove_overflow
            else Inr (l\<lparr>input_file := fd,
                        fds := sys_close (sys_dup2 t fd 0) fd,
                        args_to_remove := args_to_remove l @ [i, i + 1]\<rparr>))
      else Inr l)"

text \<open>The loop \<^verbatim>\<open>for (int i = 0; i < count - 1; i++)\<close>.\<close>

function redirection_loop ::
  "surroundings \<Rightarrow> string list \<Rightarrow> nat \<Rightarrow> redir_locals \<Rightarrow> redir_failure + redir_locals" where
  "redirection_loop w args i l =
     (if i + 1 < length args then
        (case redirect_output_at w args i l of
           Inl f \<Rightarrow> Inl f
         | Inr l1 \<Rightarrow>
             (case redirect_input_at w args i l1 of
                Inl f \<Rightarrow> Inl f
              | Inr l2 \<Rightarrow> redirection_loop w args (Suc i) l2))
      else Inr l)"
  by pat_completeness auto
termination
  by (relation "measure (\<lambda>(w, args, i, l). length args - i)") auto

declare redirection_loop.simps [simp del]

text \<open>The loop of lines 382 to 385: \<^verbatim>\<open>args[args_to_remove[i]] = NULL\<close>.\<close>

fun remove_args :: "string option list \<Rightarrow> nat list \<Rightarrow> string option list" where
  "remove_args a [] = a"
| "remove_args a (i # is) = remove_args (a[i := None]) is"

text \<open>The whole function: \<open>Inl (Open_failed path)\<close> is \<open>return 1\<close> with
  \<open>redirection_file = path\<close>; \<open>Inr (a, t)\<close> is \<open>return 0\<close>, leaving the array \<open>a\<close> (its
  last entry the null terminator) and the descriptor table \<open>t\<close>.\<close>

definition redirection ::
  "surroundings \<Rightarrow> string list \<Rightarrow> int \<Rightarrow> redir_failure + (string option list \<times> fd_table)" where
  "redirection w args is_in_background =
     (let (output_null_file, t1) = sys_open (open_null_out w) (child_fds w) ''/dev/null'' O_WRONLY;
          (input_null_file, t2) = sys_open (open_null_in w) t1 ''/dev/null'' O_RDONLY
      in case redirection_loop w args 0
                \<lparr>input_file = garbage w, output_file = - 5, args_to_remove = [], fds = t2\<rparr> of
           Inl f \<Rightarrow> Inl f
         | Inr l \<Rightarrow>
             (let t3 = (if output_file l \<noteq> - 5 then sys_dup2 (fds l) (output_file l) 1
                        else fds l);
                  t4 = (if input_file l \<noteq> - 5 then sys_dup2 t3 (input_file l) 0 else t3);
                  t5 = (if output_file l = - 5 \<and> is_in_background = 1
                        then sys_dup2 t4 output_null_file 1 else t4);
                  t6 = (if input_file l = - 5 \<and> is_in_background = 1
                        then sys_dup2 t5 input_null_file 0 else t5)
              in Inr (remove_args (map Some args @ [None]) (args_to_remove l), t6)))"

subsection \<open>Launching a command\<close>

text \<open>
  What \<open>run_fork\<close> (lines 433 to 506) leads to, in the process that runs it:
  \<^item> \<open>Fork_failed\<close>: \<open>perror\<close>, then \<open>exit(1)\<close> of the shell;
  \<^item> \<open>Child_exit code out err\<close>: the child wrote \<open>out\<close> to descriptor 1 and \<open>err\<close> to
    descriptor 2 and called \<open>exit(code)\<close>;
  \<^item> \<open>Child_exec file argv t sigint_default\<close>: \<open>execvp(file, argv)\<close> replaced the child's
    image; \<open>argv\<close> is the array up to its first null pointer, \<open>t\<close> the descriptor table, and
    \<open>sigint_default\<close> tells whether SIGINT was reset to its default action (it is ignored
    otherwise, as in the shell);
  \<^item> \<open>Child_fault\<close>: the child passed a null pointer as the file to \<open>execvp\<close>;
  \<^item> \<open>Parent g out\<close>: the shell goes on with the globals \<open>g\<close>, having printed \<open>out\<close>;
  \<^item> \<open>Out_of_bounds\<close>: the process left an array: \<open>redirection\<close> wrote past the end of
    \<open>args_to_remove\<close> in the child, or \<open>count\<close> is 0 and \<open>args[count - 1]\<close> reads before
    \<open>args\<close> (\<open>process_command\<close> never calls \<open>run_fork\<close> so).
\<close>

datatype outcome =
    Fork_failed
  | Child_exit int string string
  | Child_exec string "string list" fd_table bool
  | Child_fault
  | Parent globals string
  | Out_of_bounds

definition argv_of :: "string option list \<Rightarrow> string list" where
  "argv_of a = map the (takeWhile (\<lambda>x. x \<noteq> None) a)"

text \<open>\<open>case 0\<close> of the switch (lines 458 to 482). The assignment to
  \<open>current_foreground_pid\<close> changes the child's copy of the variable only, which nothing
  reads before the child ends or replaces its image.\<close>

definition run_fork_child :: "surroundings \<Rightarrow> string list \<Rightarrow> int \<Rightarrow> outcome" where
  "run_fork_child w args background_command =
     (case redirection w args background_command of
        Inl (Open_failed f) \<Rightarrow>
          Child_exit 1 (''bash: '' @ str (Some f) @ '': No such file or directory'' @ [CHR 0x0A]) []
      | Inl Remove_overflow \<Rightarrow> Out_of_bounds
      | Inr (a, t) \<Rightarrow>
          (case a ! 0 of
             None \<Rightarrow> Child_fault
           | Some file \<Rightarrow>
               if exec_ok w then Child_exec file (argv_of a) t (background_command = 0)
               else Child_exit 1 []
                      (''bash: '' @ str (a ! 0) @ '': command not found'' @ [CHR 0x0A])))"

text \<open>\<open>default\<close> of the switch (lines 484 to 504).\<close>

definition run_fork_parent :: "surroundings \<Rightarrow> globals \<Rightarrow> int \<Rightarrow> outcome" where
  "run_fork_parent w g background_command =
     (if background_command = 0 then
        (let g1 = g\<lparr>current_foreground_pid := fork_returns w\<rparr>;
             g2 = (if fst (waitpid_returns w) > 0
                   then g1\<lparr>exit_method := snd (waitpid_returns w)\<rparr> else g1)
         in Parent g2 (check_termination g2))
      else
        Parent (g\<lparr>num_background_process := num_background_process g + 1\<rparr>)
          (''Background pid is '' @ dec (fork_returns w) @ [CHR 0x0A]))"

definition run_fork :: "surroundings \<Rightarrow> globals \<Rightarrow> string list \<Rightarrow> outcome" where
  "run_fork w g args =
     (if args = [] then Out_of_bounds
      else
        (let spawnPid = fork_returns w;
             amp = (last args = ''&'');
             background_command = (if amp \<and> z_mode g = 0 then 1 else 0);
             args1 = (if amp then butlast args else args)
         in if spawnPid = - 1 then Fork_failed
            else if spawnPid = 0 then run_fork_child w args1 background_command
            else run_fork_parent w g background_command))"

subsection \<open>The built-in command exit\<close>

text \<open>
  \<open>exit_shell\<close> (lines 174 to 184) acts on the processes of the system. A process is
  known by its process group, by what a SIGTERM sent to it does, and by whether it still
  runs or how it ended. The shell installs handlers for SIGTSTP and SIGINT only, so what
  SIGTERM does to the shell is what it inherited: the default action unless the shell was
  started with SIGTERM ignored or blocked.
\<close>

datatype sigterm_handling = Default | Ignored | Caught | Blocked

datatype proc_state = Running | Exited int | Signaled int

record process =
  pgid :: int
  on_sigterm :: sigterm_handling
  state :: proc_state

type_synonym proc_table = "int \<Rightarrow> process option"

definition SIGTERM :: int where
  "SIGTERM = 15"

text \<open>
  A SIGTERM with the default action terminates the process; an ignored one is discarded; a
  caught or blocked one leaves the process running. \<open>kill(pid, SIGTERM)\<close> with
  \<open>pid < -1\<close> signals every process of group \<open>-pid\<close>, and \<open>kill(-1, SIGTERM)\<close> every
  process but process 1 and the caller. A signal that \<open>kill\<close> generates for the calling
  process itself is delivered before \<open>kill\<close> returns. \<open>exit(code)\<close> ends the calling
  process, if it still runs.
\<close>

definition deliver_sigterm :: "process \<Rightarrow> process" where
  "deliver_sigterm p =
     (if state p = Running \<and> on_sigterm p = Default then p\<lparr>state := Signaled SIGTERM\<rparr>
      else p)"

definition sys_kill_sigterm :: "proc_table \<Rightarrow> int \<Rightarrow> int \<Rightarrow> proc_table" where
  "sys_kill_sigterm tbl caller pid =
     (\<lambda>q. case tbl q of
             None \<Rightarrow> None
           | Some p \<Rightarrow>
               if pid < - 1 \<and> pgid p = - pid then Some (deliver_sigterm p)
               else if pid = - 1 \<and> q \<noteq> 1 \<and> q \<noteq> caller then Some (deliver_sigterm p)
               else if 0 < pid \<and> q = pid then Some (deliver_sigterm p)
               else if pid = 0 \<and> map_option pgid (tbl caller) = Some (pgid p)
                 then Some (deliver_sigterm p)
               else Some p)"

definition sys_exit :: "proc_table \<Rightarrow> int \<Rightarrow> int \<Rightarrow> proc_table" where
  "sys_exit tbl caller code =
     (case tbl caller of
        None \<Rightarrow> tbl
      | Some p \<Rightarrow> if state p = Running then tbl(caller \<mapsto> p\<lparr>state := Exited code\<rparr>) else tbl)"

text \<open>\<open>getpid()\<close> is the parameter \<open>shell_pid\<close>; \<open>getpgid(shell_pid)\<close> reads the table.\<close>

definition exit_shell :: "proc_table \<Rightarrow> int \<Rightarrow> proc_table" where
  "exit_shell tbl shell_pid =
     (case tbl shell_pid of
        None \<Rightarrow> tbl
      | Some sh \<Rightarrow>
          (let group_pid = pgid sh;
               tbl1 = sys_kill_sigterm tbl shell_pid (- group_pid)
           in sys_exit tbl1 shell_pid 0))"

subsection \<open>Expansion of the pid token\<close>

definition MAX_COMMAND_LENGTH :: nat where
  "MAX_COMMAND_LENGTH = 2048"

text \<open>
  C strings are lists of characters without the terminating zero.
  \<open>strstr(haystack, needle)\<close> is the position of the first occurrence, or \<open>None\<close> for
  the null pointer. \<open>snprintf(buffer, n, ...)\<close> stores at most \<open>n - 1\<close> characters of
  the formatted text. \<open>strncpy(dest, src, n)\<close> always writes \<open>n\<close> bytes to \<open>dest\<close>:
  the first \<open>n\<close> characters of \<open>src\<close>, padded with zero bytes when \<open>src\<close> is shorter.
  With \<open>dest_size\<close> the number of bytes of the array \<open>dest\<close> points to, the result is
  \<open>None\<close> when the write runs past the end of that array, and the string left in \<open>dest\<close>
  otherwise.
\<close>

fun strstr :: "string \<Rightarrow> string \<Rightarrow> nat option" where
  "strstr [] needle = (if needle = [] then Some 0 else None)"
| "strstr (c # cs) needle =
     (if take (length needle) (c # cs) = needle then Some 0
      else map_option Suc (strstr cs needle))"














subsection \<open>The built-in command cd and the dispatch\<close>

text \<open>
  What the built-in commands learn from outside the program: the shell's pid and the
  processes of the system for \<open>exit\<close>; the value of \<open>HOME\<close>, the current working
  directory and whether \<open>chdir\<close> to a path succeeds for \<open>cd\<close>.
\<close>

record shell_world =
  getpid_returns :: int
  processes :: proc_table
  getenv_HOME :: "string option"
  getcwd_returns :: string
  chdir_ok :: "string \<Rightarrow> bool"

text \<open>
  What \<open>change_directory\<close> (lines 217 to 258) leads to:
  \<^item> \<open>Changed_directory path\<close>: \<open>chdir(path)\<close> succeeded;
  \<^item> \<open>Chdir_failed path\<close>: \<open>chdir(path)\<close> failed (a null pointer for \<open>None\<close>) and
    \<open>perror\<close> reported \<open>Error changing directory\<close>; the working directory is unchanged;
  \<^item> \<open>Cwd_overrun\<close>: the path does not fit the array \<^verbatim>\<open>char cwd[MAX_COMMAND_LENGTH]\<close>:
    \<open>getcwd\<close> fails and leaves the array undefined, or \<open>strcat\<close> or \<open>strcpy\<close> writes past
    its end;
  \<^item> \<open>Args_overrun\<close>: \<open>count\<close> is 0 and \<open>args[1]\<close> is read past the terminator
    (\<open>process_command\<close> never calls the function so).
\<close>

datatype cd_outcome =
    Changed_directory string
  | Chdir_failed "string option"
  | Cwd_overrun
  | Args_overrun

definition sys_chdir :: "shell_world \<Rightarrow> string \<Rightarrow> cd_outcome" where
  "sys_chdir e path = (if chdir_ok e path then Changed_directory path else Chdir_failed (Some path))"

definition change_directory :: "shell_world \<Rightarrow> string list \<Rightarrow> cd_outcome" where
  "change_directory e args =
     (if length args = 1 then
        (case getenv_HOME e of None \<Rightarrow> Chdir_failed None | Some h \<Rightarrow> sys_chdir e h)
      else if args = [] then Args_overrun
      else if args ! 1 = [] \<or> hd (args ! 1) \<noteq> CHR ''/'' then
        (if length (getcwd_returns e) + 1 + length (args ! 1) < MAX_COMMAND_LENGTH
         then sys_chdir e (getcwd_returns e @ ''/'' @ args ! 1)
         else Cwd_overrun)
      else
        (if length (args ! 1) < MAX_COMMAND_LENGTH then sys_chdir e (args ! 1)
         else Cwd_overrun))"

text \<open>
  \<open>process_command(args, count)\<close> (lines 515 to 550) gets the tokens \<open>strtok\<close> cut from the
  line; the last one still ends with the newline of the line. What it leads to:
  \<^item> \<open>Returned\<close>: the line is a comment or empty, nothing is done;
  \<^item> \<open>Shell_exit tbl\<close>: \<open>exit_shell\<close> ran and left the processes \<open>tbl\<close>;
  \<^item> \<open>Status_printed out\<close>: \<open>status_command\<close> printed \<open>out\<close>;
  \<^item> \<open>Directory r\<close>: \<open>change_directory\<close> ran with the result \<open>r\<close>;
  \<^item> \<open>Launched r\<close>: \<open>run_fork\<close> ran with the outcome \<open>r\<close>;
  \<^item> \<open>Null_pointer\<close>: \<open>count\<close> is 0, \<open>args[0]\<close> is the null pointer and
    \<open>args[0][0]\<close> reads through it.
\<close>

datatype dispatched =
    Returned
  | Shell_exit proc_table
  | Status_printed string
  | Directory cd_outcome
  | Launched outcome
  | Null_pointer

text \<open>Lines 523 to 528: the newline at the end of the last token is cut off.\<close>

definition strip_newline :: "string \<Rightarrow> string" where
  "strip_newline s = (if s \<noteq> [] \<and> last s = CHR 0x0A then butlast s else s)"

definition process_command ::
  "surroundings \<Rightarrow> shell_world \<Rightarrow> globals \<Rightarrow> string list \<Rightarrow> dispatched" where
  "process_command w e g args =
     (if args = [] then Null_pointer
      else if hd args \<noteq> [] \<and> (hd (hd args) = CHR ''#'' \<or> hd (hd args) = CHR 0x0A) then Returned
      else
        (let args1 = butlast args @ [strip_newline (last args)]
         in if hd args1 = ''exit''
              then Shell_exit (exit_shell (processes e) (getpid_returns e))
            else if hd args1 = ''status'' then Status_printed (status_command g)
            else if hd args1 = ''cd'' then Directory (change_directory e args1)
            else Launched (run_fork w g args1)))"

subsection \<open>A sample child\<close>

text \<open>A forked child on a terminal for which every system call succeeds, and which finds
  the value -5 in \<open>input_file\<close>.\<close>

definition plain_child :: surroundings where
  "plain_child =
     \<lparr> fork_returns = 0, waitpid_returns = (0, 0),
       open_null_out = True, open_null_in = True, open_at = (\<lambda>i. True), exec_ok = True,
       child_fds = [Some (Inherited 0), Some (Inherited 1), Some (Inherited 2)],
       garbage = - 5 \<rparr>"

text \<open>A shell with pid 500 in its own process group, with one background child, started
  in \<open>/tmp\<close> by a user whose home directory \<open>/home/u\<close> is the only directory that
  \<open>chdir\<close> accepts.\<close>

definition plain_shell :: shell_world where
  "plain_shell =
     \<lparr> getpid_returns = 500,
       processes = [500 \<mapsto> \<lparr>pgid = 500, on_sigterm = Default, state = Running\<rparr>,
                    501 \<mapsto> \<lparr>pgid = 500, on_sigterm = Default, state = Running\<rparr>],
       getenv_HOME = Some ''/home/u'',
       getcwd_returns = ''/tmp'',
       chdir_ok = (\<lambda>path. path = ''/home/u'') \<rparr>"

subsection \<open>Positions of redirection operators\<close>

text \<open>The indices from \<open>i\<close> on at which the loop of \<open>redirection\<close> finds an operator:
  those before the last entry that hold \<open><\<close> or \<open>>\<close>.\<close>

definition op_indices :: "string list \<Rightarrow> nat \<Rightarrow> nat set" where
  "op_indices args i =
     {j. i \<le> j \<and> j + 1 < length args \<and> (args ! j = ''<'' \<or> args ! j = ''>'')}"


section \<open>Properties\<close>

subsection \<open>The status built-in and the reaper\<close>

text \<open>
  Claim C1: in a run in which no foreground command has completed yet, \<open>status\<close>
  should report \<open>exit value 0\<close>. The program starts with \<open>exit_method = -5\<close>, and
  \<open>status_command\<close> decodes that value with the wait macros like any other status: its
  low seven bits are 123, not 0, so the \<open>else\<close> branch is taken and the shell prints
  \<open>terminated by signal 123\<close>.
\<close>

theorem status_before_any_foreground_command:
  "status_command initial_globals = ''terminated by signal 123'' @ [CHR 0x0A]"
  by (simp add: status_command_def initial_globals_def WIFEXITED_def WTERMSIG_def dec_def
      dec_nat.simps)

text \<open>
  Claim C2: reaping a background child should leave the stored status of the last
  foreground command unchanged. The reaper passes \<open>&exit_method\<close> itself to
  \<open>waitpid\<close>, so the status of the reaped child replaces it: after a foreground command
  that exited with 0, reaping background child 4242 that exited with 1 makes \<open>status\<close>
  print \<open>exit value 1\<close>.
\<close>

theorem reaper_overwrites_foreground_status:
  "status_command (initial_globals\<lparr>exit_method := W_EXITCODE 0 0, num_background_process := 1\<rparr>)
     = ''exit value 0'' @ [CHR 0x0A] \<and>
   status_command
     (fst (check_background_processes
        (initial_globals\<lparr>exit_method := W_EXITCODE 0 0, num_background_process := 1\<rparr>)
        (4242, W_EXITCODE 1 0)))
     = ''exit value 1'' @ [CHR 0x0A]"
  by (simp add: status_command_def check_background_processes_def initial_globals_def
      W_EXITCODE_def WIFEXITED_def WTERMSIG_def WEXITSTATUS_def dec_def dec_nat.simps)

text \<open>
  Claim C3: when the reaper finds a completed background child it should report the
  child's pid and its exit value or signal, and decrement the number of background
  children. It reports, but no path of \<open>check_background_processes\<close> writes
  \<open>num_background_process\<close>: with two background children outstanding and child 4242
  reaped, the report is printed and the count is still 2.
\<close>

theorem reaper_keeps_background_count:
  "check_background_processes (initial_globals\<lparr>num_background_process := 2\<rparr>)
       (4242, W_EXITCODE 0 0)
     = (initial_globals\<lparr>num_background_process := 2, exit_method := 0\<rparr>,
        ''background pid 4242 is done: exit value 0'' @ [CHR 0x0A]) \<and>
   num_background_process (fst (check_background_processes g w)) = num_background_process g"
  by (simp add: check_background_processes_def initial_globals_def Let_def
      W_EXITCODE_def WIFEXITED_def WTERMSIG_def WEXITSTATUS_def dec_def dec_nat.simps)

subsection \<open>Facts about redirection\<close>





lemma redirect_output_at_Inr:
  "redirect_output_at w args i l = Inr l1 \<Longrightarrow>
     set (args_to_remove l1) =
       set (args_to_remove l) \<union> (if args ! i = ''>'' then {i, i + 1} else {})"
  by (auto simp: redirect_output_at_def Let_def split: if_splits prod.splits)

lemma redirect_input_at_Inr:
  "redirect_input_at w args i l = Inr l1 \<Longrightarrow>
     set (args_to_remove l1) =
       set (args_to_remove l) \<union> (if args ! i = ''<'' then {i, i + 1} else {})"
  by (auto simp: redirect_input_at_def Let_def split: if_splits prod.splits)

lemma op_indices_step:
  "i + 1 < length args \<Longrightarrow>
     op_indices args i =
       (if args ! i = ''<'' \<or> args ! i = ''>'' then {i} else {}) \<union> op_indices args (Suc i)"
  by (auto simp: op_indices_def Suc_le_eq le_less)

lemma op_indices_end: "\<not> i + 1 < length args \<Longrightarrow> op_indices args i = {}"
  by (auto simp: op_indices_def)

lemma redirection_loop_Inr:
  "redirection_loop w args i l = Inr l' \<Longrightarrow>
     set (args_to_remove l') =
       set (args_to_remove l) \<union> op_indices args i \<union> Suc ` op_indices args i"
proof (induction w args i l rule: redirection_loop.induct)
  case (1 w args i l)
  show ?case
  proof (cases "i + 1 < length args")
    case False
    with "1.prems" show ?thesis
      by (simp add: redirection_loop.simps op_indices_end)
  next
    case True
    from "1.prems" True obtain l1 l2 where
      o: "redirect_output_at w args i l = Inr l1" and
      n: "redirect_input_at w args i l1 = Inr l2" and
      r: "redirection_loop w args (Suc i) l2 = Inr l'"
      by (subst (asm) redirection_loop.simps) (auto split: sum.splits)
    have "set (args_to_remove l') =
            set (args_to_remove l2) \<union> op_indices args (Suc i) \<union> Suc ` op_indices args (Suc i)"
      using "1.IH" [OF True o n r] .
    then show ?thesis
      using redirect_output_at_Inr [OF o] redirect_input_at_Inr [OF n] op_indices_step [OF True]
      by auto
  qed
qed






lemma no_ops_loop:
  assumes "\<forall>j. j + 1 < length args \<longrightarrow> args ! j \<noteq> ''<'' \<and> args ! j \<noteq> ''>''"
  shows "redirection_loop w args i l = Inr l"
proof (induction "length args - i" arbitrary: i)
  case 0
  then show ?case by (simp add: redirection_loop.simps)
next
  case (Suc n)
  show ?case
  proof (cases "i + 1 < length args")
    case False
    then show ?thesis by (simp add: redirection_loop.simps)
  next
    case True
    with assms have "args ! i \<noteq> ''<''" "args ! i \<noteq> ''>''" by auto
    moreover from Suc.hyps(2) have "n = length args - Suc i" by simp
    ultimately show ?thesis
      using True Suc.hyps(1) [of "Suc i"]
      by (subst redirection_loop.simps)
         (simp add: redirect_output_at_def redirect_input_at_def)
  qed
qed

lemma argv_of_all: "argv_of (map Some args @ [None]) = args"
  by (induction args) (simp_all add: argv_of_def)

lemma redirection_no_operators:
  assumes "\<forall>s\<in>set args. s \<noteq> ''<'' \<and> s \<noteq> ''>''"
  shows "redirection w args 0 =
     Inr (map Some args @ [None],
          (let t2 = snd (sys_open (open_null_in w)
                      (snd (sys_open (open_null_out w) (child_fds w) ''/dev/null'' O_WRONLY))
                      ''/dev/null'' O_RDONLY)
           in if garbage w \<noteq> - 5 then sys_dup2 t2 (garbage w) 0 else t2))"
proof -
  from assms have "\<forall>j. j + 1 < length args \<longrightarrow> args ! j \<noteq> ''<'' \<and> args ! j \<noteq> ''>''"
    by simp
  from no_ops_loop [OF this] show ?thesis
    by (simp add: redirection_def Let_def split: prod.splits)
qed

text \<open>The operators that the loop still has to visit, and the room left in
  \<open>args_to_remove\<close>: with at most 256 operators whose targets open, \<open>redirection\<close>
  returns 0; with more, it writes past the end of the array.\<close>

lemma ops_from_end:
  "\<not> i + 1 < length args \<Longrightarrow> filter (\<lambda>s. s = ''<'' \<or> s = ''>'') (drop i (butlast args)) = []"
  by simp






text \<open>The loop never looks at the last token as an operator.\<close>

lemma redirection_loop_last_token:
  assumes "xs = [] \<or> (last xs \<noteq> ''<'' \<and> last xs \<noteq> ''>'')"
  shows "redirection_loop w (xs @ [x]) i l = redirection_loop w xs i l"
proof (induction "length xs - i" arbitrary: i l)
  case 0
  then have le: "length xs \<le> i" by simp
  then have "redirection_loop w xs i l = Inr l" by (simp add: redirection_loop.simps)
  moreover from le have "redirection_loop w (xs @ [x]) i l = Inr l"
    by (simp add: redirection_loop.simps)
  ultimately show ?case by simp
next
  case (Suc n)
  then have i: "i < length xs" by simp
  show ?case
  proof (cases "i + 1 < length xs")
    case True
    then have same: "(xs @ [x]) ! i = xs ! i" "(xs @ [x]) ! (i + 1) = xs ! (i + 1)"
      by (simp_all add: nth_append)
    have o: "redirect_output_at w (xs @ [x]) i l' = redirect_output_at w xs i l'" for l'
      by (simp only: redirect_output_at_def same)
    have n: "redirect_input_at w (xs @ [x]) i l' = redirect_input_at w xs i l'" for l'
      by (simp only: redirect_input_at_def same)
    from Suc.hyps(2) have m: "n = length xs - Suc i" by simp
    have L: "redirection_loop w (xs @ [x]) i l =
        (case redirect_output_at w xs i l of
           Inl f \<Rightarrow> Inl f
         | Inr l1 \<Rightarrow>
             (case redirect_input_at w xs i l1 of
                Inl f \<Rightarrow> Inl f
              | Inr l2 \<Rightarrow> redirection_loop w (xs @ [x]) (Suc i) l2))"
      using True by (subst redirection_loop.simps) (simp add: o n split: sum.splits)
    have R: "redirection_loop w xs i l =
        (case redirect_output_at w xs i l of
           Inl f \<Rightarrow> Inl f
         | Inr l1 \<Rightarrow>
             (case redirect_input_at w xs i l1 of
                Inl f \<Rightarrow> Inl f
              | Inr l2 \<Rightarrow> redirection_loop w xs (Suc i) l2))"
      using True by (subst redirection_loop.simps) simp
    show ?thesis
      unfolding L R by (simp add: Suc.hyps(1) [OF m] split: sum.splits)
  next
    case False
    with i have last_i: "i = length xs - 1" "xs \<noteq> []" by auto
    then have "(xs @ [x]) ! i = last xs"
      by (simp add: nth_append last_conv_nth)
    with assms last_i(2) have
      "redirect_output_at w (xs @ [x]) i l = Inr l" "redirect_input_at w (xs @ [x]) i l = Inr l"
      by (simp_all add: redirect_output_at_def redirect_input_at_def)
    moreover have "redirection_loop w (xs @ [x]) (Suc i) l = Inr l"
      using False by (subst redirection_loop.simps) simp
    ultimately have "redirection_loop w (xs @ [x]) i l = Inr l"
      using i by (subst redirection_loop.simps) simp
    moreover have "redirection_loop w xs i l = Inr l"
      using False by (simp add: redirection_loop.simps)
    ultimately show ?thesis by simp
  qed
qed

lemma remove_args_append:
  "\<forall>j\<in>set js. j < length u \<Longrightarrow> remove_args (u @ v) js = remove_args u js @ v"
  by (induction js arbitrary: u) (simp_all add: list_update_append1)

lemma redirection_loop_indices:
  assumes "redirection_loop w args 0 l = Inr l'" and "args_to_remove l = []"
  shows "\<forall>j\<in>set (args_to_remove l'). j < length args"
  using redirection_loop_Inr [OF assms(1)] assms(2)
  by (auto simp: op_indices_def)

lemma redirection_last_token:
  assumes "xs = [] \<or> (last xs \<noteq> ''<'' \<and> last xs \<noteq> ''>'')"
  shows "redirection w (xs @ [x]) bg =
           map_sum id (\<lambda>(a, t). (butlast a @ [Some x, None], t)) (redirection w xs bg)"
proof -
  have arr: "remove_args (map Some xs @ [Some x, None]) (args_to_remove l') =
               butlast (remove_args (map Some xs @ [None]) (args_to_remove l')) @ [Some x, None]"
    if "redirection_loop w xs 0 l = Inr l'" "args_to_remove l = []" for l l'
  proof -
    from redirection_loop_indices [OF that]
    have b: "\<forall>j\<in>set (args_to_remove l'). j < length (map Some xs)" by simp
    show ?thesis
      using remove_args_append [OF b, of "[Some x, None]"] remove_args_append [OF b, of "[None]"]
      by simp
  qed
  show ?thesis
    unfolding redirection_def Let_def
    by (auto simp: redirection_loop_last_token [OF assms] arr split: prod.splits sum.splits)
qed




lemma strip_newline_added:
  assumes "nl = [] \<or> nl = [CHR 0x0A]" and "s \<noteq> []" and "CHR 0x0A \<notin> set s"
  shows "strip_newline (s @ nl) = s"
proof -
  from assms(2,3) have "last s \<noteq> CHR 0x0A" using last_in_set by metis
  with assms(1,2) show ?thesis by (auto simp: strip_newline_def)
qed

lemma process_command_tokens:
  assumes "\<forall>s\<in>set cmd. s \<noteq> [] \<and> CHR 0x0A \<notin> set s" and "cmd \<noteq> []"
    and "nl = [] \<or> nl = [CHR 0x0A]"
  shows "process_command w e g (butlast cmd @ [last cmd @ nl]) =
           (if hd (hd cmd) = CHR ''#'' then Returned
            else if hd cmd = ''exit''
              then Shell_exit (exit_shell (processes e) (getpid_returns e))
            else if hd cmd = ''status'' then Status_printed (status_command g)
            else if hd cmd = ''cd'' then Directory (change_directory e cmd)
            else Launched (run_fork w g cmd))"
proof -
  from assms(1,2) have first: "hd cmd \<noteq> []" "hd (hd cmd) \<noteq> CHR 0x0A"
    by (cases cmd; cases "hd cmd"; auto)+
  from assms(1,2) have lst: "last cmd \<noteq> []" "CHR 0x0A \<notin> set (last cmd)"
    using last_in_set by blast+
  have R1: "butlast (butlast cmd @ [last cmd @ nl]) @
              [strip_newline (last (butlast cmd @ [last cmd @ nl]))] = cmd"
    using strip_newline_added [OF assms(3) lst] assms(2) by simp
  have hdR: "hd (hd (butlast cmd @ [last cmd @ nl])) = hd (hd cmd)"
            "hd (butlast cmd @ [last cmd @ nl]) \<noteq> []"
    using assms(2) first lst by (cases cmd rule: rev_cases; cases "butlast cmd"; auto)+
  show ?thesis
    using first hdR(2)
    by (simp only: process_command_def Let_def R1 hdR(1)) simp
qed

text \<open>The definitions unfolded to run the model on a given command.\<close>

lemmas run_defs =
  run_fork_def run_fork_child_def run_fork_parent_def redirection_def plain_child_def
  initial_globals_def redirection_loop.simps redirect_output_at_def redirect_input_at_def
  sys_open_def sys_dup2_def sys_close_def fd_get_def fd_put_def argv_of_def Let_def
  check_termination_def WIFSIGNALED_def WTERMSIG_def MAX_ARGUMENTS_def str_def


subsection \<open>An operator in the last position\<close>

text \<open>
  Claim C4, as stated: a command line with \<open><\<close> or \<open>>\<close> as its last token is an error
  and is never executed. The loop of \<open>redirection\<close> stops before the last index, so the
  token is not looked at: \<open>echo hi >\<close> is executed, with \<open>>\<close> as an argument of
  \<open>echo\<close>.
\<close>

theorem trailing_operator_is_executed:
  "run_fork plain_child initial_globals [''echo'', ''hi'', ''>''] =
     Child_exec ''echo'' [''echo'', ''hi'', ''>'']
       [Some (Inherited 0), Some (Inherited 1), Some (Inherited 2),
        Some (Opened ''/dev/null'' O_WRONLY), Some (Opened ''/dev/null'' O_RDONLY)]
       True"
  by (simp add: run_defs)

text \<open>
  Claim C4, amended: on a command line whose last token is \<open><\<close> or \<open>>\<close>, with no
  operator directly before it, that token is neither an error nor a redirection. The
  line (tokens \<open>xs\<close>, then the operator \<open>x\<close>, with or without the newline \<open>nl\<close> of the
  line) is dispatched like any other line: a comment is skipped, \<open>exit\<close> and \<open>status\<close>
  run, \<open>cd\<close> runs with the tokens as its arguments, any other command goes to
  \<open>run_fork\<close>. There the child resolves the redirections of the command without its
  last token (the same open failure, or the same descriptor table), keeps the token in
  the argument array and goes on to \<open>execvp\<close>, while the shell waits for the child in
  the foreground. When no other token is an operator, \<open>execvp\<close> gets the whole line as
  argument vector, the operator its last argument, and the descriptor table is the
  child's own but for the two descriptors of \<open>/dev/null\<close> and for what the unassigned
  \<open>input_file\<close> does to descriptor 0.
\<close>

theorem trailing_operator_is_argument:
  assumes "x = ''<'' \<or> x = ''>''"
    and "xs = [] \<or> (last xs \<noteq> ''<'' \<and> last xs \<noteq> ''>'')"
    and "\<forall>s\<in>set xs. s \<noteq> [] \<and> CHR 0x0A \<notin> set s"
    and "nl = [] \<or> nl = [CHR 0x0A]"
  shows "process_command w e g (xs @ [x @ nl]) =
           (if hd (hd (xs @ [x])) = CHR ''#'' then Returned
            else if hd (xs @ [x]) = ''exit''
              then Shell_exit (exit_shell (processes e) (getpid_returns e))
            else if hd (xs @ [x]) = ''status'' then Status_printed (status_command g)
            else if hd (xs @ [x]) = ''cd'' then Directory (change_directory e (xs @ [x]))
            else Launched (run_fork w g (xs @ [x]))) \<and>
   run_fork w g (xs @ [x]) =
     (if fork_returns w = - 1 then Fork_failed
      else if fork_returns w = 0 then
        (case redirection w xs 0 of
           Inl (Open_failed f) \<Rightarrow>
             Child_exit 1 (''bash: '' @ f @ '': No such file or directory'' @ [CHR 0x0A]) []
         | Inl Remove_overflow \<Rightarrow> Out_of_bounds
         | Inr (a, t) \<Rightarrow>
             (case (butlast a @ [Some x, None]) ! 0 of
                None \<Rightarrow> Child_fault
              | Some file \<Rightarrow>
                  if exec_ok w
                  then Child_exec file (argv_of (butlast a @ [Some x, None])) t True
                  else Child_exit 1 []
                         (''bash: '' @ file @ '': command not found'' @ [CHR 0x0A])))
      else
        (let g1 = g\<lparr>current_foreground_pid := fork_returns w\<rparr>;
             g2 = (if fst (waitpid_returns w) > 0
                   then g1\<lparr>exit_method := snd (waitpid_returns w)\<rparr> else g1)
         in Parent g2 (check_termination g2))) \<and>
   ((\<forall>s\<in>set xs. s \<noteq> ''<'' \<and> s \<noteq> ''>'') \<and> fork_returns w = 0 \<and> exec_ok w \<longrightarrow>
      run_fork w g (xs @ [x]) =
        Child_exec (hd (xs @ [x])) (xs @ [x])
          (let t2 = snd (sys_open (open_null_in w)
                      (snd (sys_open (open_null_out w) (child_fds w) ''/dev/null'' O_WRONLY))
                      ''/dev/null'' O_RDONLY)
           in if garbage w \<noteq> - 5 then sys_dup2 t2 (garbage w) 0 else t2)
          True)"
proof -
  from assms(1) have amp: "x \<noteq> ''&''" by auto
  from assms(1,3) have toks: "\<forall>s\<in>set (xs @ [x]). s \<noteq> [] \<and> CHR 0x0A \<notin> set s" by auto
  have 0: "process_command w e g (xs @ [x @ nl]) =
           (if hd (hd (xs @ [x])) = CHR ''#'' then Returned
            else if hd (xs @ [x]) = ''exit''
              then Shell_exit (exit_shell (processes e) (getpid_returns e))
            else if hd (xs @ [x]) = ''status'' then Status_printed (status_command g)
            else if hd (xs @ [x]) = ''cd'' then Directory (change_directory e (xs @ [x]))
            else Launched (run_fork w g (xs @ [x])))"
    using process_command_tokens [OF toks _ assms(4), of w e g] by simp
  have child: "run_fork_child w (xs @ [x]) 0 =
        (case redirection w xs 0 of
           Inl (Open_failed f) \<Rightarrow>
             Child_exit 1 (''bash: '' @ f @ '': No such file or directory'' @ [CHR 0x0A]) []
         | Inl Remove_overflow \<Rightarrow> Out_of_bounds
         | Inr (a, t) \<Rightarrow>
             (case (butlast a @ [Some x, None]) ! 0 of
                None \<Rightarrow> Child_fault
              | Some file \<Rightarrow>
                  if exec_ok w
                  then Child_exec file (argv_of (butlast a @ [Some x, None])) t True
                  else Child_exit 1 []
                         (''bash: '' @ file @ '': command not found'' @ [CHR 0x0A])))"
    unfolding run_fork_child_def redirection_last_token [OF assms(2)]
    by (auto simp: str_def split: sum.splits redir_failure.splits option.splits)
  have 1: "run_fork w g (xs @ [x]) =
     (if fork_returns w = - 1 then Fork_failed
      else if fork_returns w = 0 then run_fork_child w (xs @ [x]) 0
      else run_fork_parent w g 0)"
    using amp by (simp add: run_fork_def Let_def)
  have 2: "run_fork w g (xs @ [x]) =
        Child_exec (hd (xs @ [x])) (xs @ [x])
          (let t2 = snd (sys_open (open_null_in w)
                      (snd (sys_open (open_null_out w) (child_fds w) ''/dev/null'' O_WRONLY))
                      ''/dev/null'' O_RDONLY)
           in if garbage w \<noteq> - 5 then sys_dup2 t2 (garbage w) 0 else t2)
          True"
    if "\<forall>s\<in>set xs. s \<noteq> ''<'' \<and> s \<noteq> ''>''" "fork_returns w = 0" "exec_ok w"
  proof -
    have "(butlast (map Some xs @ [None]) @ [Some x, None]) ! 0 = Some (hd (xs @ [x]))"
      by (cases xs) simp_all
    moreover have "argv_of (butlast (map Some xs @ [None]) @ [Some x, None]) = xs @ [x]"
      using argv_of_all [of "xs @ [x]"] by simp
    ultimately show ?thesis
      using that(2,3) by (simp add: 1 child redirection_no_operators [OF that(1)])
  qed
  have 3: "run_fork w g (xs @ [x]) =
     (if fork_returns w = - 1 then Fork_failed
      else if fork_returns w = 0 then
        (case redirection w xs 0 of
           Inl (Open_failed f) \<Rightarrow>
             Child_exit 1 (''bash: '' @ f @ '': No such file or directory'' @ [CHR 0x0A]) []
         | Inl Remove_overflow \<Rightarrow> Out_of_bounds
         | Inr (a, t) \<Rightarrow>
             (case (butlast a @ [Some x, None]) ! 0 of
                None \<Rightarrow> Child_fault
              | Some file \<Rightarrow>
                  if exec_ok w
                  then Child_exec file (argv_of (butlast a @ [Some x, None])) t True
                  else Child_exit 1 []
                         (''bash: '' @ file @ '': command not found'' @ [CHR 0x0A])))
      else
        (let g1 = g\<lparr>current_foreground_pid := fork_returns w\<rparr>;
             g2 = (if fst (waitpid_returns w) > 0
                   then g1\<lparr>exit_method := snd (waitpid_returns w)\<rparr> else g1)
         in Parent g2 (check_termination g2)))"
    by (simp add: 1 child run_fork_parent_def)
  from 0 2 3 show ?thesis by blast
qed

theorem trailing_operator_is_argument_witness:
  "process_command plain_child plain_shell initial_globals [''wc'', ''-l'', ''<'' @ [CHR 0x0A]] =
     Launched (Child_exec ''wc'' [''wc'', ''-l'', ''<'']
       [Some (Inherited 0), Some (Inherited 1), Some (Inherited 2),
        Some (Opened ''/dev/null'' O_WRONLY), Some (Opened ''/dev/null'' O_RDONLY)]
       True) \<and>
   run_fork (plain_child\<lparr>fork_returns := 4242, waitpid_returns := (4242, 0)\<rparr>) initial_globals
       [''wc'', ''-l'', ''<''] =
     Parent (initial_globals\<lparr>current_foreground_pid := 4242, exit_method := 0\<rparr>) [] \<and>
   process_command plain_child plain_shell initial_globals
       [''cat'', ''<'', ''in'', ''>'' @ [CHR 0x0A]] =
     Launched (Child_exec ''cat'' [''cat'']
       [Some (Opened ''in'' O_RDONLY), Some (Inherited 1), Some (Inherited 2),
        Some (Opened ''/dev/null'' O_WRONLY), Some (Opened ''/dev/null'' O_RDONLY), None]
       True) \<and>
   process_command plain_child plain_shell initial_globals [''status'', ''>'' @ [CHR 0x0A]] =
     Status_printed (''terminated by signal 123'' @ [CHR 0x0A])"
proof -
  have h: "''<'' = ''<'' \<or> ''<'' = ''>''"
    "[''wc'', ''-l''] = [] \<or> (last [''wc'', ''-l''] \<noteq> ''<'' \<and> last [''wc'', ''-l''] \<noteq> ''>'')"
    "\<forall>s\<in>set [''wc'', ''-l'']. s \<noteq> [] \<and> CHR 0x0A \<notin> set s"
    "[CHR 0x0A] = [] \<or> [CHR 0x0A] = [CHR 0x0A]"
    by simp_all
  note wc = trailing_operator_is_argument [OF h]
  have k: "''>'' = ''<'' \<or> ''>'' = ''>''"
    "[''cat'', ''<'', ''in''] = [] \<or>
       (last [''cat'', ''<'', ''in''] \<noteq> ''<'' \<and> last [''cat'', ''<'', ''in''] \<noteq> ''>'')"
    "\<forall>s\<in>set [''cat'', ''<'', ''in'']. s \<noteq> [] \<and> CHR 0x0A \<notin> set s"
    by simp_all
  note cat = trailing_operator_is_argument [OF k h(4), of plain_child plain_shell initial_globals]
  have r: "redirection plain_child [''cat'', ''<'', ''in''] 0 =
     Inr ([Some ''cat'', None, None, None],
          [Some (Opened ''in'' O_RDONLY), Some (Inherited 1), Some (Inherited 2),
           Some (Opened ''/dev/null'' O_WRONLY), Some (Opened ''/dev/null'' O_RDONLY), None])"
    by (simp add: run_defs)
  have s: "''>'' = ''<'' \<or> ''>'' = ''>''"
    "[''status''] = [] \<or> (last [''status''] \<noteq> ''<'' \<and> last [''status''] \<noteq> ''>'')"
    "\<forall>s\<in>set [''status'']. s \<noteq> [] \<and> CHR 0x0A \<notin> set s"
    by simp_all
  note st = trailing_operator_is_argument
              [OF s h(4), of plain_child plain_shell initial_globals, THEN conjunct1]
  have 1: "process_command plain_child plain_shell initial_globals
             [''wc'', ''-l'', ''<'' @ [CHR 0x0A]] =
     Launched (Child_exec ''wc'' [''wc'', ''-l'', ''<'']
       [Some (Inherited 0), Some (Inherited 1), Some (Inherited 2),
        Some (Opened ''/dev/null'' O_WRONLY), Some (Opened ''/dev/null'' O_RDONLY)]
       True)"
    using wc [of plain_child plain_shell initial_globals, THEN conjunct1]
          wc [of plain_child plain_shell initial_globals, THEN conjunct2, THEN conjunct2]
    by (simp add: plain_child_def sys_open_def fd_put_def Let_def)
  have 2: "run_fork (plain_child\<lparr>fork_returns := 4242, waitpid_returns := (4242, 0)\<rparr>)
       initial_globals [''wc'', ''-l'', ''<''] =
     Parent (initial_globals\<lparr>current_foreground_pid := 4242, exit_method := 0\<rparr>) []"
    using wc [of "plain_child\<lparr>fork_returns := 4242, waitpid_returns := (4242, 0)\<rparr>"
                 plain_shell initial_globals, THEN conjunct2, THEN conjunct1]
    by (simp add: plain_child_def Let_def check_termination_def WIFSIGNALED_def word_sless_alt)
  have 3: "process_command plain_child plain_shell initial_globals
       [''cat'', ''<'', ''in'', ''>'' @ [CHR 0x0A]] =
     Launched (Child_exec ''cat'' [''cat'']
       [Some (Opened ''in'' O_RDONLY), Some (Inherited 1), Some (Inherited 2),
        Some (Opened ''/dev/null'' O_WRONLY), Some (Opened ''/dev/null'' O_RDONLY), None]
       True)"
    using cat [THEN conjunct1] cat [THEN conjunct2, THEN conjunct1]
    by (simp add: r argv_of_def) (simp add: plain_child_def)
  have 4: "process_command plain_child plain_shell initial_globals
             [''status'', ''>'' @ [CHR 0x0A]] =
     Status_printed (''terminated by signal 123'' @ [CHR 0x0A])"
    using st
    by (simp add: status_command_def initial_globals_def WIFEXITED_def WTERMSIG_def dec_def
        dec_nat.simps)
  from 1 2 3 4 show ?thesis by simp
qed

subsection \<open>The variable input_file\<close>

text \<open>
  Claim C5: for a foreground command without \<open><\<close>, the decision not to reattach
  standard input should not depend on a variable that was never assigned, and standard
  input should stay as it was. For \<open>ls\<close> in the foreground no assignment to
  \<open>input_file\<close> is executed before the test \<open>input_file != -5\<close> of line 362, so the
  test reads whatever the variable holds. When that is -5, descriptor 0 is left alone; when
  it is 1, \<open>dup2(1, 0)\<close> runs and descriptor 0 refers to the file of standard output.
\<close>

theorem unassigned_input_file_decides_stdin:
  "redirection plain_child [''ls''] 0 =
     Inr ([Some ''ls'', None],
          [Some (Inherited 0), Some (Inherited 1), Some (Inherited 2),
           Some (Opened ''/dev/null'' O_WRONLY), Some (Opened ''/dev/null'' O_RDONLY)]) \<and>
   redirection (plain_child\<lparr>garbage := 1\<rparr>) [''ls''] 0 =
     Inr ([Some ''ls'', None],
          [Some (Inherited 1), Some (Inherited 1), Some (Inherited 2),
           Some (Opened ''/dev/null'' O_WRONLY), Some (Opened ''/dev/null'' O_RDONLY)])"
  by (simp add: run_defs)

subsection \<open>Foreground-only mode\<close>




subsection \<open>Redirection pairs and the argument vector\<close>







subsection \<open>The exit built-in\<close>




subsection \<open>Expansion of the pid token\<close>





lemma strstr_dd_Nil: "strstr [] ''$$'' = None"
  by simp


















end
